theory Spec2Isabelle
  imports Complex_Main
begin

section \<open>JavaScript numbers as the recorder sees them\<close>

text \<open>
  The fields \<open>startTime\<close> and \<open>endedTime\<close> of a \<open>LogTime\<close> object are not assigned by
  its constructor, so they read \<open>undefined\<close> until \<open>start()\<close> or \<open>end()\<close> stores
  \<open>Date.now()\<close> in them. \<open>Date.now()\<close> is an integer count of milliseconds (a time
  value, of magnitude at most 8640000000000000), the worker counters are integers, and
  the only arithmetic of the program is one subtraction and one multiplication. Every
  number is an IEEE double, so a value is \<open>undefined\<close>, a double whose value is an
  integer (\<open>Num n\<close>; the two zeros are not told apart), \<open>NaN\<close>, or an infinity.
\<close>

datatype jsnum = Undefined | Num int | NaN | PosInf | NegInf

text \<open>The number of binary digits of a positive integer.\<close>

function bit_length :: "int \<Rightarrow> nat" where
  "bit_length n = (if n \<le> 0 then 0 else Suc (bit_length (n div 2)))"
  by pat_completeness auto
termination
  by (relation "measure nat") auto

declare bit_length.simps [simp del]

text \<open>
  The double nearest to an integer, as every arithmetic operation returns it: an integer
  of magnitude up to \<open>2^53\<close> is a double; a larger one keeps its 53 leading binary
  digits, rounded to nearest with ties to the even significand; a result of magnitude
  \<open>2^1024\<close> or more is an infinity.
\<close>

definition round_double :: "int \<Rightarrow> jsnum" where
  "round_double x =
     (if \<bar>x\<bar> \<le> 2 ^ 53 then Num x
      else (let m = \<bar>x\<bar>;
                e = bit_length m - 53;
                q = m div 2 ^ e;
                r = m mod 2 ^ e;
                h = 2 ^ (e - 1);
                q' = (if h < r \<or> (r = h \<and> odd q) then q + 1 else q);
                y = q' * 2 ^ e
            in if 2 ^ 1024 \<le> y then (if 0 < x then PosInf else NegInf)
               else Num (if 0 < x then y else - y)))"

text \<open>
  The binary \<open>-\<close> of JavaScript: the exact difference rounded to a double; \<open>undefined\<close>
  converts to \<open>NaN\<close>, \<open>NaN\<close> is absorbing, and the difference of two equal infinities
  is \<open>NaN\<close>.
\<close>

fun js_sub :: "jsnum \<Rightarrow> jsnum \<Rightarrow> jsnum" where
  "js_sub (Num a) (Num b) = round_double (a - b)"
| "js_sub (Num a) PosInf = NegInf"
| "js_sub (Num a) NegInf = PosInf"
| "js_sub PosInf (Num b) = PosInf"
| "js_sub PosInf NegInf = PosInf"
| "js_sub NegInf (Num b) = NegInf"
| "js_sub NegInf PosInf = NegInf"
| "js_sub _ _ = NaN"

text \<open>
  The binary \<open>*\<close> of JavaScript: the exact product rounded to a double; an infinity
  times zero is \<open>NaN\<close>.
\<close>

fun js_mul :: "jsnum \<Rightarrow> jsnum \<Rightarrow> jsnum" where
  "js_mul (Num a) (Num b) = round_double (a * b)"
| "js_mul (Num a) PosInf = (if a = 0 then NaN else if 0 < a then PosInf else NegInf)"
| "js_mul (Num a) NegInf = (if a = 0 then NaN else if 0 < a then NegInf else PosInf)"
| "js_mul PosInf (Num b) = (if b = 0 then NaN else if 0 < b then PosInf else NegInf)"
| "js_mul NegInf (Num b) = (if b = 0 then NaN else if 0 < b then NegInf else PosInf)"
| "js_mul PosInf PosInf = PosInf"
| "js_mul PosInf NegInf = NegInf"
| "js_mul NegInf PosInf = NegInf"
| "js_mul NegInf NegInf = PosInf"
| "js_mul _ _ = NaN"

text \<open>The unary \<open>!\<close> of JavaScript: \<open>undefined\<close>, \<open>0\<close> and \<open>NaN\<close> are the falsy values here.\<close>

fun js_not :: "jsnum \<Rightarrow> bool" where
  "js_not Undefined = True"
| "js_not (Num n) = (n = 0)"
| "js_not NaN = True"
| "js_not PosInf = False"
| "js_not NegInf = False"

text \<open>
  The comparison \<open>x == 0\<close> of JavaScript: only the number zero is loosely equal to \<open>0\<close>
  (\<open>undefined == 0\<close> and \<open>NaN == 0\<close> are false).
\<close>

fun js_eq_zero :: "jsnum \<Rightarrow> bool" where
  "js_eq_zero (Num n) = (n = 0)"
| "js_eq_zero _ = False"

text \<open>
  \<open>Math.floor\<close>: a double whose value is an integer, and an infinity, are returned as
  they are; \<open>undefined\<close> converts to \<open>NaN\<close>.
\<close>

fun Math_floor :: "jsnum \<Rightarrow> jsnum" where
  "Math_floor (Num n) = Num n"
| "Math_floor PosInf = PosInf"
| "Math_floor NegInf = NegInf"
| "Math_floor _ = NaN"

text \<open>\<open>a || b\<close> on an environment string that may be absent: absent and empty are falsy.\<close>

fun js_or :: "string option \<Rightarrow> string \<Rightarrow> string" where
  "js_or None d = d"
| "js_or (Some s) d = (if s = [] then d else s)"

text \<open>Decimal rendering of a number inside a template literal.\<close>

fun nat_to_string :: "nat \<Rightarrow> string" where
  "nat_to_string n =
     (if n < 10 then [''0123456789'' ! n]
      else nat_to_string (n div 10) @ [''0123456789'' ! (n mod 10)])"

declare nat_to_string.simps [simp del]

section \<open>The metrics sink\<close>

text \<open>
  \<open>Trend\<close>, \<open>Gauge\<close> and \<open>Counter\<close> belong to the host (\<open>k6/metrics\<close>). A metric object
  is its type, its name and its \<open>isTime\<close> flag; \<open>add\<close> hands one sample to the sink,
  which is the list of samples in the order they were emitted.
\<close>

datatype metric_type = Trend | Gauge | Counter

record metric =
  mtype :: metric_type
  mname :: string
  isTime :: bool

type_synonym sample = "metric \<times> jsnum"

definition new_Trend :: "string \<Rightarrow> bool \<Rightarrow> metric" where
  "new_Trend n t = \<lparr>mtype = Trend, mname = n, isTime = t\<rparr>"

definition new_Gauge :: "string \<Rightarrow> metric" where
  "new_Gauge n = \<lparr>mtype = Gauge, mname = n, isTime = False\<rparr>"

definition new_Counter :: "string \<Rightarrow> metric" where
  "new_Counter n = \<lparr>mtype = Counter, mname = n, isTime = False\<rparr>"

definition metric_add :: "metric \<Rightarrow> jsnum \<Rightarrow> sample list \<Rightarrow> sample list" where
  "metric_add m v sink = sink @ [(m, v)]"

section \<open>class LogTime\<close>

record LogTime =
  name :: string
  trend :: metric
  startTime :: jsnum
  endedTime :: jsnum

text \<open>
  \<open>constructor(name)\<close>: \<open>this.name = name || ''\<close>, \<open>this.trend = new Trend(this.name, true)\<close>.
  Nothing else is assigned and the clock is not read.
\<close>

definition LogTime_new :: "string option \<Rightarrow> LogTime" where
  "LogTime_new n =
     (let nm = js_or n []
      in \<lparr>name = nm, trend = new_Trend nm True, startTime = Undefined, endedTime = Undefined\<rparr>)"

text \<open>\<open>get duration()\<close>: \<open>if (!this.endedTime) return -1; return this.endedTime - this.startTime\<close>.\<close>

definition LogTime_duration :: "LogTime \<Rightarrow> jsnum" where
  "LogTime_duration r =
     (if js_not (endedTime r) then Num (- 1) else js_sub (endedTime r) (startTime r))"

text \<open>\<open>start()\<close>: \<open>this.startTime = Date.now()\<close>; the argument \<open>now\<close> is the clock reading.\<close>

definition LogTime_start :: "int \<Rightarrow> LogTime \<Rightarrow> LogTime" where
  "LogTime_start now r = r\<lparr>startTime := Num now\<rparr>"

text \<open>
  \<open>end()\<close>: \<open>this.endedTime = Date.now(); this.trend.add(this.duration); return this.duration\<close>.
  The result is the returned value, the updated recorder and the updated sink.
\<close>

definition LogTime_end :: "int \<Rightarrow> LogTime \<Rightarrow> sample list \<Rightarrow> jsnum \<times> LogTime \<times> sample list" where
  "LogTime_end now r sink =
     (let r' = r\<lparr>endedTime := Num now\<rparr>;
          sink' = metric_add (trend r') (LogTime_duration r') sink
      in (LogTime_duration r', r', sink'))"

section \<open>class Performant: the handlers registered by onConnect\<close>

text \<open>
  \<open>onConnect(socket)\<close> creates three metric objects and registers four handlers that close
  over them. A session is those three objects (the local \<open>trend\<close> is the \<open>LogTime\<close>
  recorder) together with everything the handlers act on: the samples handed to the
  metrics sink, the lines written by \<open>console.log\<close>, the payloads passed to
  \<open>socket.send\<close> and the seconds spent in \<open>sleep\<close>.
\<close>

record session =
  gauge :: metric
  recorder :: LogTime
  counter :: metric
  samples :: "sample list"
  console :: "string list"
  sent :: "string list"
  slept :: nat

text \<open>\<open>console.log(a, b, ...)\<close> writes its arguments on one line, separated by a space.\<close>

fun join_args :: "string list \<Rightarrow> string" where
  "join_args [] = []"
| "join_args [a] = a"
| "join_args (a # b # rest) = a @ '' '' @ join_args (b # rest)"

definition console_log :: "string list \<Rightarrow> string list \<Rightarrow> string list" where
  "console_log args out = out @ [join_args args]"

text \<open>
  The message handler's log line carries two labels written in Chinese (``length'' and
  ``message''); they are given here as their UTF-8 bytes.
\<close>

definition label_length :: string where
  "label_length = [CHR 0xE9, CHR 0x95, CHR 0xB7, CHR 0xE5, CHR 0xBA, CHR 0xA6]"

definition label_message :: string where
  "label_message = [CHR 0xE8, CHR 0xA8, CHR 0x8A, CHR 0xE6, CHR 0x81, CHR 0xAF]"

text \<open>
  The body of \<open>onConnect\<close> before any event: \<open>new Gauge('gaugeRtt')\<close>,
  \<open>new LogTime('api_name')\<close>, \<open>new Counter('api_name')\<close>. The sink and the console are
  the host's and are passed in as they stand. No method of the recorder is called here.
\<close>

definition onConnect :: "sample list \<Rightarrow> string list \<Rightarrow> session" where
  "onConnect sink out =
     \<lparr>gauge = new_Gauge ''gaugeRtt'',
      recorder = LogTime_new (Some ''api_name''),
      counter = new_Counter ''api_name'',
      samples = sink, console = out, sent = [], slept = 0\<rparr>"

text \<open>
  \<open>socket.on('open', ...)\<close>: one log line and \<open>socket.send('onTestcase1')\<close>. The worker
  identity \<open>__VU\<close> is \<open>vu\<close>; \<open>stamp\<close> is the text of \<open>new Date().toISOString()\<close>.
\<close>

definition on_open :: "nat \<Rightarrow> string \<Rightarrow> session \<Rightarrow> session" where
  "on_open vu stamp s =
     s\<lparr>console := console_log [''VU:'' @ nat_to_string vu @ '' '' @ stamp @ '' connected''] (console s),
       sent := sent s @ [''onTestcase1'']\<rparr>"

text \<open>\<open>socket.on('close', ...)\<close>: one log line and \<open>sleep(1)\<close>.\<close>

definition on_close :: "nat \<Rightarrow> session \<Rightarrow> session" where
  "on_close vu s =
     s\<lparr>console := console_log [''VU '' @ nat_to_string vu @ '': disconnected''] (console s),
       slept := slept s + 1\<rparr>"

text \<open>
  \<open>socket.on('message', ...)\<close>: one log line for every message; then, only when
  \<open>message === 'onTestcase1'\<close>, \<open>const rtt = trend.end(); gauge.add(rtt); counter.add(1)\<close>.
  \<open>now\<close> is what \<open>Date.now()\<close> reads while the handler runs. \<open>message.length\<close> is the
  length of the payload (for an ASCII payload, the length of the list).
\<close>

definition on_message :: "nat \<Rightarrow> int \<Rightarrow> string \<Rightarrow> session \<Rightarrow> session" where
  "on_message vu now message s =
     (let s1 = s\<lparr>console := console_log
                  [''VU '' @ nat_to_string vu @ '' '' @ label_length @ '' '' @
                   nat_to_string (length message * 2) @ '' bytes, '' @ label_message @ '': '' @
                   message] (console s)\<rparr>
      in if message = ''onTestcase1'' then
           (case LogTime_end now (recorder s1) (samples s1) of
              (rtt, r', sink') \<Rightarrow>
                s1\<lparr>recorder := r',
                   samples := metric_add (counter s1) (Num 1) (metric_add (gauge s1) rtt sink')\<rparr>)
         else s1)"

text \<open>
  \<open>socket.on('error', ...)\<close>: \<open>if (e.error() != 'websocket: close sent')\<close> then
  \<open>console.log(`${__VU} An unexpected error occurred: `, e.error())\<close>. \<open>cause\<close> is the
  string \<open>e.error()\<close>.
\<close>

definition on_error :: "nat \<Rightarrow> string \<Rightarrow> session \<Rightarrow> session" where
  "on_error vu cause s =
     (if cause \<noteq> ''websocket: close sent''
      then s\<lparr>console := console_log [nat_to_string vu @ '' An unexpected error occurred: '', cause]
                           (console s)\<rparr>
      else s)"

text \<open>
  The transport delivers messages one at a time, in order; each comes with the clock
  reading at which its handler runs.
\<close>

fun deliver :: "nat \<Rightarrow> (int \<times> string) list \<Rightarrow> session \<Rightarrow> session" where
  "deliver vu [] s = s"
| "deliver vu ((now, message) # rest) s = deliver vu rest (on_message vu now message s)"

text \<open>How many samples of one metric type a sink holds.\<close>

definition count_type :: "metric_type \<Rightarrow> sample list \<Rightarrow> nat" where
  "count_type t sink = length (filter (\<lambda>(m, v). mtype m = t) sink)"

section \<open>The scenario catalog\<close>

text \<open>The option objects are object literals: strings, numbers, arrays and nested objects.\<close>

datatype json = JStr string | JNum int | JArr "json list" | JObj "(string \<times> json) list"

text \<open>Property access \<open>o.k\<close>, absent on anything but an object that has the key.\<close>

fun jget :: "json \<Rightarrow> string \<Rightarrow> json option" where
  "jget (JObj kvs) k = map_of kvs k"
| "jget _ k = None"

fun jpath :: "json \<Rightarrow> string list \<Rightarrow> json option" where
  "jpath j [] = Some j"
| "jpath j (k # ks) = (case jget j k of None \<Rightarrow> None | Some j' \<Rightarrow> jpath j' ks)"

text \<open>The \<open>target\<close> of every element of a \<open>stages\<close> array.\<close>

fun stage_targets :: "json \<Rightarrow> json option list" where
  "stage_targets (JArr sts) = map (\<lambda>st. jget st ''target'') sts"
| "stage_targets _ = []"

text \<open>
  \<open>__ENV\<close> holds strings, and a variable that is not set reads \<open>undefined\<close>.
  \<open>PerfEnvironment\<close> copies \<open>SCENE\<close> and \<open>PVUS\<close> and defaults the duration:
  \<open>__ENV.DURATION || '1m'\<close>.
\<close>

record ENV =
  SCENE :: "string option"
  PVUS :: "string option"
  DURATION :: "string option"

record PerfEnv =
  scene :: "string option"
  perf_vus :: "string option"
  duration :: string

definition PerfEnvironment :: "ENV \<Rightarrow> PerfEnv" where
  "PerfEnvironment env =
     \<lparr>scene = SCENE env, perf_vus = PVUS env, duration = js_or (DURATION env) ''1m''\<rparr>"

definition stage :: "string \<Rightarrow> int \<Rightarrow> json" where
  "stage d t = JObj [(''duration'', JStr d), (''target'', JNum t)]"

definition iterations_testing :: json where
  "iterations_testing =
     JObj [(''scenarios'', JObj
       [(''iterations'', JObj
           [(''executor'', JStr ''shared-iterations''),
            (''vus'', JNum 1),
            (''iterations'', JNum 1),
            (''maxDuration'', JStr ''10m'')]),
        (''monitor'', JObj
           [(''executor'', JStr ''constant-arrival-rate''),
            (''preAllocatedVUs'', JNum 1),
            (''timeUnit'', JStr ''1s''),
            (''rate'', JNum 1),
            (''duration'', JStr ''1m10s''),
            (''exec'', JStr ''monitor'')])])]"

definition ramping_arrival_rate_testing :: json where
  "ramping_arrival_rate_testing =
     JObj [(''scenarios'', JObj
       [(''stress'', JObj
           [(''executor'', JStr ''ramping-arrival-rate''),
            (''preAllocatedVUs'', JNum 2),
            (''maxVUs'', JNum 2),
            (''startRate'', JNum 1),
            (''timeUnit'', JStr ''1s''),
            (''stages'', JArr
               [stage ''30s'' 0, stage ''5m'' 10, stage ''5m'' 50, stage ''10m'' 100,
                stage ''30s'' 0])])])]"

definition stress_testing_options :: json where
  "stress_testing_options =
     JObj [(''stages'', JArr
       [stage ''10s'' 10, stage ''10s'' 10, stage ''10s'' 50, stage ''10s'' 0])]"

definition constant_testing :: "PerfEnv \<Rightarrow> json" where
  "constant_testing pe =
     JObj [(''thresholds'', JObj [(''gaugeRtt'', JArr [JStr ''value<100''])]),
           (''scenarios'', JObj
             [(''constant'', JObj
                 [(''executor'', JStr ''constant-vus''),
                  (''vus'', JNum 2),
                  (''duration'', JStr (duration pe)),
                  (''tags'', JObj [(''type'', JStr ''game'')])])])]"

definition breakpoint_testing :: json where
  "breakpoint_testing =
     JObj [(''scenarios'', JObj
       [(''breakpoint'', JObj
           [(''executor'', JStr ''ramping-arrival-rate''),
            (''stages'', JArr [stage ''10m'' 20000])])])]"

text \<open>
  \<open>initialize(scene)\<close>: a chain of \<open>==\<close> comparisons of \<open>scene\<close> with four string
  literals, in the source's order, and a final \<open>else\<close>. An unset \<open>scene\<close> is
  \<open>undefined\<close>, which \<open>==\<close> no string.
\<close>

definition initialize :: "PerfEnv \<Rightarrow> string option \<Rightarrow> json" where
  "initialize pe sc =
     (if sc = Some ''iterations'' then iterations_testing
      else if sc = Some ''ramping_arrival_rate_testing'' then ramping_arrival_rate_testing
      else if sc = Some ''stress'' then stress_testing_options
      else if sc = Some ''breakpoint'' then breakpoint_testing
      else constant_testing pe)"

text \<open>\<open>options\<close>: \<open>initialize(PerfEnvironment.scene)\<close>.\<close>

definition options :: "ENV \<Rightarrow> json" where
  "options env = initialize (PerfEnvironment env) (scene (PerfEnvironment env))"

section \<open>The start delay computed by main\<close>

text \<open>
  \<open>exec.vu.idInTest\<close> and \<open>exec.vu.iterationInScenario\<close> are the host's counters, handed
  to the script as numbers.
  \<open>per_stage_clients = iterationInScenario == 0 ? idInTest : iterationInScenario\<close>,
  \<open>per_stage_duration = 1000\<close>, \<open>timeout = Math.floor(per_stage_clients) * per_stage_duration\<close>;
  \<open>timeout\<close> is the delay handed to \<open>setTimeout\<close>.
\<close>

definition main_timeout :: "jsnum \<Rightarrow> jsnum \<Rightarrow> jsnum" where
  "main_timeout idInTest iterationInScenario =
     (let per_stage_clients =
            (if js_eq_zero iterationInScenario then idInTest else iterationInScenario);
          per_stage_duration = Num 1000
      in js_mul (Math_floor per_stage_clients) per_stage_duration)"

section \<open>Facts about the handlers\<close>

lemma round_double_exact: "\<bar>x\<bar> \<le> 2 ^ 53 \<Longrightarrow> round_double x = Num x"
  by (simp add: round_double_def)

lemma LogTime_end_eq:
  "LogTime_end now r sink =
     (LogTime_duration (r\<lparr>endedTime := Num now\<rparr>),
      r\<lparr>endedTime := Num now\<rparr>,
      sink @ [(trend r, LogTime_duration (r\<lparr>endedTime := Num now\<rparr>))])"
  by (simp add: LogTime_end_def metric_add_def Let_def)

lemma on_message_samples:
  "samples (on_message vu now message s) =
     (if message = ''onTestcase1''
      then samples s @
           [(trend (recorder s), LogTime_duration ((recorder s)\<lparr>endedTime := Num now\<rparr>)),
            (gauge s, LogTime_duration ((recorder s)\<lparr>endedTime := Num now\<rparr>)),
            (counter s, Num 1)]
      else samples s)"
  by (simp add: on_message_def LogTime_end_eq metric_add_def Let_def)

lemma on_message_metrics:
  "gauge (on_message vu now message s) = gauge s"
  "counter (on_message vu now message s) = counter s"
  "trend (recorder (on_message vu now message s)) = trend (recorder s)"
  by (simp_all add: on_message_def LogTime_end_eq Let_def)

lemma deliver_metrics:
  "gauge (deliver vu msgs s) = gauge s \<and>
   counter (deliver vu msgs s) = counter s \<and>
   trend (recorder (deliver vu msgs s)) = trend (recorder s)"
proof (induction msgs arbitrary: s)
  case Nil
  show ?case by simp
next
  case (Cons p msgs)
  obtain now message where p: "p = (now, message)" by (cases p)
  show ?case using Cons.IH [of "on_message vu now message s"]
    by (simp add: p on_message_metrics)
qed

lemma count_type_append:
  "count_type t (xs @ ys) = count_type t xs + count_type t ys"
  by (simp add: count_type_def)

lemma deliver_counts:
  assumes "mtype (gauge s) = Gauge" and "mtype (counter s) = Counter"
    and "mtype (trend (recorder s)) = Trend"
  shows "count_type Counter (samples (deliver vu msgs s)) =
           count_type Counter (samples s) +
           length (filter (\<lambda>(now, message). message = ''onTestcase1'') msgs)
       \<and> count_type Gauge (samples (deliver vu msgs s)) =
           count_type Gauge (samples s) +
           length (filter (\<lambda>(now, message). message = ''onTestcase1'') msgs)"
  using assms
proof (induction msgs arbitrary: s)
  case Nil
  show ?case by simp
next
  case (Cons p msgs)
  obtain now message where p: "p = (now, message)" by (cases p)
  let ?s' = "on_message vu now message s"
  have m: "mtype (gauge ?s') = Gauge" "mtype (counter ?s') = Counter"
    "mtype (trend (recorder ?s')) = Trend"
    using Cons.prems by (simp_all add: on_message_metrics)
  have step: "count_type Counter (samples ?s') =
                count_type Counter (samples s) + (if message = ''onTestcase1'' then 1 else 0)"
             "count_type Gauge (samples ?s') =
                count_type Gauge (samples s) + (if message = ''onTestcase1'' then 1 else 0)"
    using Cons.prems by (simp_all add: on_message_samples count_type_def)
  show ?case using Cons.IH [OF m] step by (simp add: p)
qed

lemma onConnect_metrics:
  "gauge (onConnect sink out) = new_Gauge ''gaugeRtt''"
  "counter (onConnect sink out) = new_Counter ''api_name''"
  "trend (recorder (onConnect sink out)) = new_Trend ''api_name'' True"
  "samples (onConnect sink out) = sink"
  by (simp_all add: onConnect_def LogTime_new_def Let_def)

text \<open>
  Away from the clock reading 0, and while the difference of the two readings is an
  integer that a double holds exactly, \<open>start()\<close> at \<open>T0\<close> followed by \<open>end()\<close> at \<open>T1\<close>
  forwards and returns \<open>T1 - T0\<close>.
\<close>

lemma LogTime_start_end_exact:
  assumes "T1 \<noteq> 0" and "\<bar>T1 - T0\<bar> \<le> 2 ^ 53"
  shows "LogTime_end T1 (LogTime_start T0 r) sink =
           (Num (T1 - T0),
            r\<lparr>startTime := Num T0, endedTime := Num T1\<rparr>,
            sink @ [(trend r, Num (T1 - T0))])"
  using assms
  by (simp add: LogTime_end_eq LogTime_start_def LogTime_duration_def round_double_exact)

section \<open>The recorder in a session\<close>

text \<open>
  C1. The specification says the recorder's start instant is captured when the recorder is
  constructed in the connection handler, so that the value forwarded on the echo is the
  time from construction to echo arrival. In the code the start marker of the recorder
  is still \<open>undefined\<close> after \<open>onConnect\<close> and after the open handler, whatever the
  clock reads, and on the echo (here at clock reading 1700000000250, worker 1) the value
  forwarded to the trend and to the gauge is \<open>NaN\<close>.
\<close>

theorem C1_start_marker_never_set:
  "startTime (recorder (onConnect [] [])) = Undefined
   \<and> startTime (recorder (on_open 1 ''2023-11-14T22:13:20.000Z'' (onConnect [] []))) = Undefined
   \<and> samples (on_message 1 1700000000250 ''onTestcase1''
        (on_open 1 ''2023-11-14T22:13:20.000Z'' (onConnect [] []))) =
      [(new_Trend ''api_name'' True, NaN), (new_Gauge ''gaugeRtt'', NaN),
       (new_Counter ''api_name'', Num 1)]"
  by (simp add: on_message_samples on_open_def onConnect_def LogTime_new_def
      LogTime_duration_def Let_def)

section \<open>The recorder\<close>

text \<open>
  C2, as the specification states it, fails: \<open>end()\<close> on a recorder whose \<open>start()\<close> was never
  called, at clock reading 1250, does not return \<open>-1\<close> and does forward a sample.
\<close>

theorem C2_counterexample:
  "fst (LogTime_end 1250 (LogTime_new (Some ''api_name'')) []) \<noteq> Num (- 1)
   \<and> snd (snd (LogTime_end 1250 (LogTime_new (Some ''api_name'')) [])) \<noteq> []"
  by (simp add: LogTime_end_def LogTime_duration_def metric_add_def LogTime_new_def Let_def)

text \<open>
  C2, as the code has it. The sentinel \<open>-1\<close> is what the \<open>duration\<close> property of a
  recorder reads while no end instant is recorded, whatever its start marker holds: on
  a freshly constructed recorder, and also after \<open>start()\<close> with no \<open>end()\<close>; reading
  it touches no sink. \<open>end()\<close> itself, on any recorder (started or not), records
  the end instant, forwards exactly one sample to the sink under the recorder's trend,
  and returns the value it forwarded.
\<close>

theorem C2_end_always_forwards:
  "(endedTime r = Undefined \<longrightarrow> LogTime_duration r = Num (- 1))
   \<and> LogTime_duration (LogTime_new n) = Num (- 1)
   \<and> LogTime_duration (LogTime_start T0 (LogTime_new n)) = Num (- 1)
   \<and> (\<exists>v. LogTime_end now r sink = (v, r\<lparr>endedTime := Num now\<rparr>, sink @ [(trend r, v)]))
   \<and> (\<exists>v. LogTime_end now (LogTime_new n) sink =
            (v, (LogTime_new n)\<lparr>endedTime := Num now\<rparr>, sink @ [(new_Trend (js_or n []) True, v)]))"
  by (simp add: LogTime_end_eq LogTime_duration_def LogTime_start_def LogTime_new_def Let_def)

theorem C2_end_always_forwards_witness:
  "endedTime (LogTime_start 1000 (LogTime_new (Some ''api_name''))) = Undefined
   \<and> LogTime_duration (LogTime_start 1000 (LogTime_new (Some ''api_name''))) = Num (- 1)"
proof -
  have h: "endedTime (LogTime_start 1000 (LogTime_new (Some ''api_name''))) = Undefined"
    by (simp add: LogTime_start_def LogTime_new_def Let_def)
  note d = C2_end_always_forwards
    [of "LogTime_start 1000 (LogTime_new (Some ''api_name''))", THEN conjunct1, THEN mp, OF h]
  from h d show ?thesis by (intro conjI)
qed

text \<open>
  C3, as the specification states it, fails: after \<open>start()\<close> at 1000 and \<open>end()\<close> at 1250 the
  start marker still holds 1000, and a second \<open>end()\<close> at 1300 forwards a second sample.
\<close>

theorem C3_counterexample:
  "startTime (fst (snd (LogTime_end 1250 (LogTime_start 1000 (LogTime_new (Some ''api_name''))) [])))
     = Num 1000
   \<and> snd (snd (LogTime_end 1300
        (fst (snd (LogTime_end 1250 (LogTime_start 1000 (LogTime_new (Some ''api_name''))) [])))
        (snd (snd (LogTime_end 1250 (LogTime_start 1000 (LogTime_new (Some ''api_name''))) [])))))
     = [(new_Trend ''api_name'' True, Num 250), (new_Trend ''api_name'' True, Num 300)]"
  by (simp add: LogTime_end_eq LogTime_start_def LogTime_duration_def LogTime_new_def Let_def
      round_double_exact)

text \<open>
  C3, as the code has it. \<open>end()\<close> leaves the start marker as it was, and every \<open>end()\<close>
  forwards one sample: when \<open>end()\<close> at reading \<open>t1\<close> is followed by a second \<open>end()\<close> at
  reading \<open>t2\<close> with no \<open>start()\<close> in between, the sink has received two samples, the
  second computed from the unchanged start marker and the new end instant.
\<close>

theorem C3_end_keeps_start_marker:
  "startTime (fst (snd (LogTime_end t1 r sink))) = startTime r
   \<and> snd (snd (LogTime_end t2 (fst (snd (LogTime_end t1 r sink)))
                               (snd (snd (LogTime_end t1 r sink))))) =
       sink @ [(trend r, LogTime_duration (r\<lparr>endedTime := Num t1\<rparr>)),
               (trend r, LogTime_duration (r\<lparr>endedTime := Num t2\<rparr>))]"
  by (simp add: LogTime_end_eq LogTime_duration_def)


section \<open>The start delay\<close>

text \<open>
  C4, as the specification states it, fails: for worker ordinal 2 in its iteration 1 the code
  computes 1000, while the maximum of the two, times 1000, is 2000. And the product is a
  product of doubles: for worker ordinal 72057594037929 in iteration 0 the code computes
  72057594037928992, which is not the ordinal times 1000.
\<close>

theorem C4_counterexample:
  "main_timeout (Num 2) (Num 1) = Num 1000
   \<and> main_timeout (Num 2) (Num 1) \<noteq> Num (max 2 1 * 1000)
   \<and> main_timeout (Num 72057594037929) (Num 0) = Num 72057594037928992
   \<and> main_timeout (Num 72057594037929) (Num 0) \<noteq> Num (max 72057594037929 0 * 1000)"
proof -
  have small: "main_timeout (Num 2) (Num 1) = Num 1000"
    by (simp add: main_timeout_def Let_def round_double_exact)
  have large: "main_timeout (Num 72057594037929) (Num 0) = Num 72057594037928992"
    by code_simp
  show ?thesis by (simp add: small large)
qed

text \<open>
  C4, as the code has it. For all non-negative integers \<open>ordinal\<close> and \<open>iteration\<close> up
  to 9007199254740, the range in which the product with 1000 is exact in double
  arithmetic, the start delay is a function of the two alone; it is \<open>iteration\<close> when
  \<open>iteration\<close> is not zero and \<open>ordinal\<close> otherwise, multiplied by the per-stage duration
  of 1000 ms; and it is never negative.
\<close>

theorem C4_delay_is_batch_times_1000:
  assumes "0 \<le> ordinal" and "ordinal \<le> 9007199254740"
    and "0 \<le> iteration" and "iteration \<le> 9007199254740"
  shows "main_timeout (Num ordinal) (Num iteration) =
           Num ((if iteration \<noteq> 0 then iteration else ordinal) * 1000)
       \<and> 0 \<le> (if iteration \<noteq> 0 then iteration else ordinal) * 1000"
  using assms by (simp add: main_timeout_def Let_def round_double_exact)

theorem C4_delay_is_batch_times_1000_witness:
  "(0::int) \<le> 3 \<and> (3::int) \<le> 9007199254740 \<and> (0::int) \<le> 0 \<and> (0::int) \<le> 9007199254740
   \<and> main_timeout (Num 3) (Num 0) = Num 3000
   \<and> (0::int) \<le> 3000"
proof -
  have h1: "(0::int) \<le> 3" and h2: "(3::int) \<le> 9007199254740"
    and h3: "(0::int) \<le> 0" and h4: "(0::int) \<le> 9007199254740" by simp_all
  show ?thesis using C4_delay_is_batch_times_1000 [OF h1 h2 h3 h4] by simp
qed

section \<open>Resolving the scenario\<close>

text \<open>
  C5, as the specification states it, fails: with \<open>SCENE\<close> set to \<open>ramping_arrival_rate\<close> the
  options resolved are the constant descriptor, not the ramping-arrival-rate descriptor.
\<close>

theorem C5_counterexample:
  "options \<lparr>SCENE = Some ''ramping_arrival_rate'', PVUS = None, DURATION = None\<rparr> =
     constant_testing \<lparr>scene = Some ''ramping_arrival_rate'', perf_vus = None, duration = ''1m''\<rparr>
   \<and> options \<lparr>SCENE = Some ''ramping_arrival_rate'', PVUS = None, DURATION = None\<rparr> \<noteq>
     ramping_arrival_rate_testing"
  by (simp add: options_def initialize_def PerfEnvironment_def constant_testing_def
      ramping_arrival_rate_testing_def)

text \<open>
  C5, as the code has it. The identifier that resolves, by exact match, to the
  ramping-arrival-rate descriptor is \<open>ramping_arrival_rate_testing\<close>. That descriptor is
  not the constant fallback; its one scenario uses the ramping-arrival-rate executor with
  a worker pool of 2 preallocated and at most 2, and its stage targets are
  0, 10, 50, 100, 0: the ramp starts and ends at zero.
\<close>

theorem C5_ramping_identifier:
  "initialize pe (Some ''ramping_arrival_rate_testing'') = ramping_arrival_rate_testing
   \<and> ramping_arrival_rate_testing \<noteq> constant_testing pe
   \<and> jpath ramping_arrival_rate_testing [''scenarios'', ''stress'', ''executor''] =
       Some (JStr ''ramping-arrival-rate'')
   \<and> jpath ramping_arrival_rate_testing [''scenarios'', ''stress'', ''preAllocatedVUs''] =
       Some (JNum 2)
   \<and> jpath ramping_arrival_rate_testing [''scenarios'', ''stress'', ''maxVUs''] = Some (JNum 2)
   \<and> map_option stage_targets
        (jpath ramping_arrival_rate_testing [''scenarios'', ''stress'', ''stages'']) =
       Some [Some (JNum 0), Some (JNum 10), Some (JNum 50), Some (JNum 100), Some (JNum 0)]"
  by (simp add: initialize_def ramping_arrival_rate_testing_def constant_testing_def stage_def)

text \<open>
  C6, as the specification states it, fails: \<open>ramping_arrival_rate_testing\<close> is none of
  the scenario names the specification lists (\<open>iterations\<close>, \<open>ramping_arrival_rate\<close>,
  \<open>stress\<close>, \<open>breakpoint\<close>, \<open>constant\<close>), yet with \<open>SCENE\<close> set to it the options
  resolved are the ramping-arrival-rate descriptor, not the descriptor that \<open>constant\<close>
  resolves to.
\<close>

theorem C6_counterexample:
  "''ramping_arrival_rate_testing'' \<notin>
     {''iterations'', ''ramping_arrival_rate'', ''stress'', ''breakpoint'', ''constant''}
   \<and> options \<lparr>SCENE = Some ''ramping_arrival_rate_testing'', PVUS = None, DURATION = None\<rparr> =
       ramping_arrival_rate_testing
   \<and> options \<lparr>SCENE = Some ''ramping_arrival_rate_testing'', PVUS = None, DURATION = None\<rparr> \<noteq>
       options \<lparr>SCENE = Some ''constant'', PVUS = None, DURATION = None\<rparr>"
  by (simp add: options_def initialize_def PerfEnvironment_def constant_testing_def
      ramping_arrival_rate_testing_def)

text \<open>
  C6, as the code has it. For every scene identifier, set or not, \<open>initialize\<close> returns a
  descriptor object. The identifiers that return the descriptor that \<open>constant\<close> returns
  are exactly those that are none of the four the function matches (\<open>iterations\<close>,
  \<open>ramping_arrival_rate_testing\<close>, \<open>stress\<close>, \<open>breakpoint\<close>): the empty string, an unset
  scene and every other string return it, and each of the four returns a different
  descriptor.
\<close>

theorem C6_fallback_is_constant:
  "(\<exists>kvs. initialize pe sc = JObj kvs)
   \<and> (sc \<notin> {Some ''iterations'', Some ''ramping_arrival_rate_testing'', Some ''stress'',
              Some ''breakpoint''}
      \<longrightarrow> initialize pe sc = initialize pe (Some ''constant'')
          \<and> initialize pe sc = constant_testing pe)
   \<and> (sc \<in> {Some ''iterations'', Some ''ramping_arrival_rate_testing'', Some ''stress'',
              Some ''breakpoint''}
      \<longrightarrow> initialize pe sc \<noteq> initialize pe (Some ''constant''))"
  by (simp add: initialize_def iterations_testing_def ramping_arrival_rate_testing_def
      stress_testing_options_def breakpoint_testing_def constant_testing_def)

theorem C6_fallback_is_constant_witness:
  "Some [] \<notin> {Some ''iterations'', Some ''ramping_arrival_rate_testing'', Some ''stress'',
              Some ''breakpoint''}
   \<and> initialize (PerfEnvironment \<lparr>SCENE = Some [], PVUS = None, DURATION = Some ''30s''\<rparr>)
        (Some []) =
      initialize (PerfEnvironment \<lparr>SCENE = Some [], PVUS = None, DURATION = Some ''30s''\<rparr>)
        (Some ''constant'')
   \<and> Some ''Stress'' \<notin> {Some ''iterations'', Some ''ramping_arrival_rate_testing'',
              Some ''stress'', Some ''breakpoint''}
   \<and> initialize (PerfEnvironment \<lparr>SCENE = Some [], PVUS = None, DURATION = Some ''30s''\<rparr>)
        (Some ''Stress'') =
      constant_testing (PerfEnvironment \<lparr>SCENE = Some [], PVUS = None, DURATION = Some ''30s''\<rparr>)
   \<and> Some ''stress'' \<in> {Some ''iterations'', Some ''ramping_arrival_rate_testing'',
              Some ''stress'', Some ''breakpoint''}
   \<and> initialize (PerfEnvironment \<lparr>SCENE = Some [], PVUS = None, DURATION = Some ''30s''\<rparr>)
        (Some ''stress'') \<noteq>
      initialize (PerfEnvironment \<lparr>SCENE = Some [], PVUS = None, DURATION = Some ''30s''\<rparr>)
        (Some ''constant'')"
proof -
  let ?pe = "PerfEnvironment \<lparr>SCENE = Some [], PVUS = None, DURATION = Some ''30s''\<rparr>"
  have h1: "Some [] \<notin> {Some ''iterations'', Some ''ramping_arrival_rate_testing'',
              Some ''stress'', Some ''breakpoint''}" by simp
  have h2: "Some ''Stress'' \<notin> {Some ''iterations'', Some ''ramping_arrival_rate_testing'',
              Some ''stress'', Some ''breakpoint''}" by simp
  have h3: "Some ''stress'' \<in> {Some ''iterations'', Some ''ramping_arrival_rate_testing'',
              Some ''stress'', Some ''breakpoint''}" by simp
  note a = C6_fallback_is_constant
    [of ?pe "Some []", THEN conjunct2, THEN conjunct1, THEN mp, OF h1]
  note b = C6_fallback_is_constant
    [of ?pe "Some ''Stress''", THEN conjunct2, THEN conjunct1, THEN mp, OF h2]
  note c = C6_fallback_is_constant
    [of ?pe "Some ''stress''", THEN conjunct2, THEN conjunct2, THEN mp, OF h3]
  from h1 a [THEN conjunct1] h2 b [THEN conjunct2] h3 c show ?thesis by (intro conjI)
qed

section \<open>The error handler\<close>

text \<open>
  C7. In the error handler, when the cause is the string \<open>websocket: close sent\<close> nothing
  is logged and the session is left as it was. For any other cause exactly one line is
  added to the console, no other effect occurs, and the line begins with the worker
  identity: it is the decimal \<open>__VU\<close>, the text \<open> An unexpected error occurred: \<close>,
  a space, and the cause.
\<close>

theorem C7_error_logging:
  "(cause = ''websocket: close sent'' \<longrightarrow> on_error vu cause s = s)
   \<and> (cause \<noteq> ''websocket: close sent'' \<longrightarrow>
        on_error vu cause s =
          s\<lparr>console := console s @
               [nat_to_string vu @ '' An unexpected error occurred:  '' @ cause]\<rparr>)"
  by (simp add: on_error_def console_log_def)

theorem C7_error_logging_witness:
  "on_error 7 ''websocket: close sent'' (onConnect [] []) = onConnect [] []
   \<and> ''connection reset by peer'' \<noteq> ''websocket: close sent''
   \<and> console (on_error 7 ''connection reset by peer'' (onConnect [] [])) =
       [''7 An unexpected error occurred:  connection reset by peer'']
   \<and> samples (on_error 7 ''connection reset by peer'' (onConnect [] [])) = []"
proof -
  have n7: "nat_to_string 7 = ''7''" by (simp add: nat_to_string.simps)
  have h: "''connection reset by peer'' \<noteq> ''websocket: close sent''" by simp
  show ?thesis
    using h C7_error_logging [of "''websocket: close sent''" 7 "onConnect [] []"]
      C7_error_logging [of "''connection reset by peer''" 7 "onConnect [] []"]
    by (simp add: n7 onConnect_def)
qed

section \<open>The message handler\<close>

text \<open>
  C8. When exactly one message of a sequence delivered to a session equals
  \<open>onTestcase1\<close>, the session adds exactly one counter sample and exactly one gauge
  sample to the sink, wherever in the sequence the match stands; and a message that is
  not \<open>onTestcase1\<close> leaves the sink as it was.
\<close>

theorem C8_one_match_one_increment:
  assumes "length (filter (\<lambda>(now, message). message = ''onTestcase1'') msgs) = 1"
  shows "count_type Counter (samples (deliver vu msgs (onConnect sink out))) =
           count_type Counter sink + 1
       \<and> count_type Gauge (samples (deliver vu msgs (onConnect sink out))) =
           count_type Gauge sink + 1
       \<and> (message \<noteq> ''onTestcase1'' \<longrightarrow> samples (on_message vu now message s) = samples s)"
proof -
  have m: "mtype (gauge (onConnect sink out)) = Gauge"
    "mtype (counter (onConnect sink out)) = Counter"
    "mtype (trend (recorder (onConnect sink out))) = Trend"
    by (simp_all add: onConnect_metrics new_Gauge_def new_Counter_def new_Trend_def)
  show ?thesis
    using deliver_counts [OF m, of vu msgs] assms
    by (simp add: onConnect_metrics on_message_samples)
qed

theorem C8_one_match_one_increment_witness:
  "length (filter (\<lambda>(now, message). message = ''onTestcase1'')
      [(1700000000100, ''hello''), (1700000000250, ''onTestcase1''), (1700000000300, ''bye'')]) = 1
   \<and> count_type Counter (samples (deliver 1
        [(1700000000100, ''hello''), (1700000000250, ''onTestcase1''), (1700000000300, ''bye'')]
        (onConnect [] []))) = 1
   \<and> count_type Gauge (samples (deliver 1
        [(1700000000100, ''hello''), (1700000000250, ''onTestcase1''), (1700000000300, ''bye'')]
        (onConnect [] []))) = 1
   \<and> ''hello'' \<noteq> ''onTestcase1''
   \<and> samples (on_message 1 1700000000100 ''hello'' (onConnect [] [])) = []"
proof -
  let ?msgs = "[(1700000000100::int, ''hello''), (1700000000250, ''onTestcase1''),
                (1700000000300, ''bye'')]"
  have h: "length (filter (\<lambda>(now, message). message = ''onTestcase1'') ?msgs) = 1" by simp
  have e: "count_type t [] = 0" for t by (simp add: count_type_def)
  have n: "''hello'' \<noteq> ''onTestcase1''" by simp
  show ?thesis
    using h n C8_one_match_one_increment [OF h, of 1 "[]" "[]" "''hello''" 1700000000100
        "onConnect [] []"]
    by (simp add: e onConnect_metrics)
qed

section \<open>Metric names\<close>

text \<open>
  C10. In every session the duration trend and the counter carry the same name,
  \<open>api_name\<close>, and the gauge carries the name \<open>gaugeRtt\<close>. After any sequence of
  messages, a message equal to \<open>onTestcase1\<close> adds to the sink one trend sample under
  \<open>api_name\<close>, one gauge sample under \<open>gaugeRtt\<close> with the same value, and one counter
  sample of 1 under \<open>api_name\<close>. \<open>gaugeRtt\<close> is the one name under \<open>thresholds\<close> in the
  constant descriptor.
\<close>

theorem C10_metric_names:
  "mname (trend (recorder (onConnect sink out))) = ''api_name''
   \<and> mname (counter (onConnect sink out)) = ''api_name''
   \<and> mname (gauge (onConnect sink out)) = ''gaugeRtt''
   \<and> (\<exists>v. samples (on_message vu now ''onTestcase1'' (deliver vu msgs (onConnect sink out))) =
            samples (deliver vu msgs (onConnect sink out)) @
              [(\<lparr>mtype = Trend, mname = ''api_name'', isTime = True\<rparr>, v),
               (\<lparr>mtype = Gauge, mname = ''gaugeRtt'', isTime = False\<rparr>, v),
               (\<lparr>mtype = Counter, mname = ''api_name'', isTime = False\<rparr>, Num 1)])
   \<and> jget (constant_testing pe) ''thresholds'' =
       Some (JObj [(''gaugeRtt'', JArr [JStr ''value<100''])])"
  by (simp add: on_message_samples deliver_metrics onConnect_metrics new_Trend_def
      new_Gauge_def new_Counter_def constant_testing_def)

end
